theory Spec2Isabelle
  imports Main "HOL-Library.Word"
begin

section \<open>Go values shared by both packages\<close>

type_synonym byte = "8 word"

text \<open>A non-nil Go \<open>error\<close> is represented by its message; an \<open>error\<close> interface
  value that may be nil is an \<open>error option\<close>.\<close>

type_synonym error = string

text \<open>The only run-time panic the modelled code can raise is the dereference of a nil
  pointer. A pointer is an \<open>option\<close>: \<open>None\<close> is nil.\<close>

datatype panic = NilPointerDereference

section \<open>Package ishare: the trusted participant repository\<close>

subsection \<open>Library and model types\<close>

text \<open>The struct declarations of package \<open>model\<close> are not among the sources. Each
  record below holds the fields that the code of package ishare reads or writes, with the
  types its use of them shows.\<close>

text \<open>\<open>sha256.Sum256\<close> returns a \<open>[32]byte\<close>: an array of exactly 32 bytes.\<close>

typedef digest = "{bs :: byte list. length bs = 32}"
  by (rule exI [of _ "replicate 32 0"]) simp

text \<open>\<open>x509.Certificate\<close>: only the field \<open>Raw\<close> is read by this package.\<close>

record x509_Certificate =
  Raw :: "byte list"

text \<open>\<open>model.HttpError\<close>; its zero value \<open>model.HttpError{}\<close> means "no error".\<close>

record HttpError =
  Status :: int
  Message :: string
  RootError :: "error option"

definition zeroHttpError :: HttpError where
  "zeroHttpError = \<lparr>Status = 0, Message = [], RootError = None\<rparr>"

definition StatusInternalServerError :: int where
  "StatusInternalServerError = 500"

definition StatusBadGateway :: int where
  "StatusBadGateway = 502"

record AuthorizationRegistry =
  Id :: string
  Host :: string
  TokenPath :: string

text \<open>An entry of the trusted list (\<open>model.TrustedParticipant\<close>); the field
  \<open>Status\<close> of the source is \<open>ParticipantStatus\<close> here, since \<open>Status\<close> is
  taken by \<open>HttpError\<close>.\<close>

record TrustedParticipant =
  Validity :: string
  ParticipantStatus :: string
  CertificateFingerprint :: string

text \<open>A certificate registered to a party: base64 of the DER encoding in \<open>X5c\<close>.\<close>

record model_Certificate =
  X5c :: string

text \<open>\<open>model.PartyInfo\<close>: \<open>Certificates\<close> is a pointer to a slice.\<close>

record model_PartyInfo =
  Certificates :: "model_Certificate list option"

text \<open>The parsed tokens the two injected parsers return. Their declarations are not
  part of the sources; each is read through one field only (\<open>parsedToken.PartyInfo\<close>,
  \<open>parsedToken.TrustedList\<close>), and the parser's result is taken as a pointer that may
  be nil.\<close>

record ParsedPartyToken =
  PartyInfo :: "model_PartyInfo option"

record ParsedTrustedListToken =
  TrustedList :: "TrustedParticipant list option"

record TrustedPartyResponse =
  PartyToken :: string

record TrustedListResponse =
  TrustedListToken :: string

record Request =
  Method :: string
  URL :: string
  Header :: "string \<rightharpoonup> string"

record Response =
  StatusCode :: int
  Body :: string

type_synonym TokenFunc = "AuthorizationRegistry \<Rightarrow> string \<times> HttpError"
type_synonym TrustedListParseFunc = "string \<Rightarrow> ParsedTrustedListToken option \<times> HttpError"
type_synonym PartyParseFunc = "string \<Rightarrow> ParsedPartyToken option \<times> HttpError"

text \<open>The repository struct. \<open>satelliteAr\<close> is a pointer in the source; the only
  constructor, \<open>NewTrustedParticipantRepository\<close>, always stores the address of a
  fresh registry there, so it is kept as the registry itself.\<close>

record IShareTrustedParticipantRepository =
  satelliteAr :: AuthorizationRegistry
  trustedFingerprints :: "string list"
  tokenFunc :: TokenFunc
  trustedListParserFunc :: TrustedListParseFunc
  partyParseFunc :: PartyParseFunc

text \<open>What the package takes from outside its own code: the Go standard library, the
  package-level HTTP client and the package variable \<open>satelliteTrustedListPath\<close>
  (set from the process environment by the constructor). A library call that returns
  \<open>(value, err)\<close> is a sum, \<open>Inl\<close> the non-nil error; \<open>globalHttpClient.Do\<close> keeps
  both components, because the source tests both.\<close>

record environment =
  Sum256 :: "byte list \<Rightarrow> digest"
  DecodeString :: "string \<Rightarrow> error + byte list"
  ParseCertificate :: "byte list \<Rightarrow> error + x509_Certificate"
  NewRequest :: "string \<Rightarrow> string \<Rightarrow> error + Request"
  globalHttpClient_Do :: "Request \<Rightarrow> Response option \<times> error option"
  DecodeTrustedPartyResponse :: "string \<Rightarrow> error + TrustedPartyResponse"
  DecodeTrustedListResponse :: "string \<Rightarrow> error + TrustedListResponse"
  SprintBody :: "string \<Rightarrow> string"
  satelliteTrustedListPath :: string

definition satellitePartyPath :: string where
  "satellitePartyPath = ''/party/''"

subsection \<open>Fingerprint of a certificate\<close>

definition hexDigit :: "nat \<Rightarrow> char" where
  "hexDigit n = ''0123456789ABCDEF'' ! n"

text \<open>\<open>fmt.Fprintf(&buf, "%02X", f)\<close> for a byte \<open>f\<close> writes its value in upper-case
  hexadecimal, padded with zeros to two digits.\<close>

definition Sprintf_02X :: "byte \<Rightarrow> string" where
  "Sprintf_02X f = [hexDigit (unat f div 16), hexDigit (unat f mod 16)]"

text \<open>The loop \<open>for i, f := range fingerprintBytes\<close> with the buffer as accumulator;
  for \<open>i > 0\<close> it first writes the empty format string.\<close>

fun writeFingerprint :: "nat \<Rightarrow> byte list \<Rightarrow> string \<Rightarrow> string" where
  "writeFingerprint i [] buf = buf"
| "writeFingerprint i (f # fs) buf =
     writeFingerprint (Suc i) fs ((if i > 0 then buf @ [] else buf) @ Sprintf_02X f)"

definition buildCertificateFingerprint ::
  "environment \<Rightarrow> x509_Certificate option \<Rightarrow> panic + string" where
  "buildCertificateFingerprint env certificate =
     (case certificate of
        None \<Rightarrow> Inl NilPointerDereference
      | Some c \<Rightarrow>
          (let fingerprintBytes = Rep_digest (Sum256 env (Raw c))
           in Inr (writeFingerprint 0 fingerprintBytes [])))"

fun contains :: "string list \<Rightarrow> string \<Rightarrow> bool" where
  "contains [] e = False"
| "contains (a # s) e = (if a = e then True else contains s e)"

subsection \<open>Remote lookups\<close>

definition getTrustedParty ::
  "environment \<Rightarrow> IShareTrustedParticipantRepository \<Rightarrow> string \<Rightarrow>
     panic + (model_PartyInfo option \<times> HttpError)" where
  "getTrustedParty env icr ident =
     (case tokenFunc icr (satelliteAr icr) of (accessToken, httpErr) \<Rightarrow>
        if httpErr \<noteq> zeroHttpError then Inr (None, httpErr)
        else
          (let partyURL = Host (satelliteAr icr) @ satellitePartyPath @ ident in
           case NewRequest env ''GET'' partyURL of
             Inl err \<Rightarrow>
               Inr (None, \<lparr>Status = StatusInternalServerError,
                           Message = ''Was not able to create the request to the trusted list.'',
                           RootError = Some err\<rparr>)
           | Inr request \<Rightarrow>
               (let partyRequest =
                      request\<lparr>Header := (Header request)(''Authorization'' \<mapsto> ''Bearer '' @ accessToken)\<rparr>
                in
                case globalHttpClient_Do env partyRequest of (partyResponse, err) \<Rightarrow>
                  (case (if err \<noteq> None then None else partyResponse) of
                     None \<Rightarrow>
                       Inr (None, \<lparr>Status = StatusBadGateway,
                                   Message = ''Was not able to retrieve the trusted list.'',
                                   RootError = err\<rparr>)
                   | Some response \<Rightarrow>
                       if StatusCode response \<noteq> 200 then
                         Inr (None, \<lparr>Status = StatusBadGateway,
                                     Message = ''Was not able to retrieve the trusted party.'',
                                     RootError = None\<rparr>)
                       else
                         (case DecodeTrustedPartyResponse env (Body response) of
                            Inl err \<Rightarrow>
                              Inr (None, \<lparr>Status = StatusBadGateway,
                                          Message = ''Received an invalid body from the satellite: ''
                                                      @ SprintBody env (Body response),
                                          RootError = Some err\<rparr>)
                          | Inr partyResponseObject \<Rightarrow>
                              (case partyParseFunc icr (PartyToken partyResponseObject) of
                                 (parsedToken, httpErr) \<Rightarrow>
                                   if httpErr \<noteq> zeroHttpError then Inr (None, httpErr)
                                   else
                                     (case parsedToken of
                                        None \<Rightarrow> Inl NilPointerDereference
                                      | Some t \<Rightarrow> Inr (PartyInfo t, httpErr))))))))"

definition getTrustedList ::
  "environment \<Rightarrow> IShareTrustedParticipantRepository \<Rightarrow>
     panic + (TrustedParticipant list option \<times> HttpError)" where
  "getTrustedList env icr =
     (case tokenFunc icr (satelliteAr icr) of (accessToken, httpErr) \<Rightarrow>
        if httpErr \<noteq> zeroHttpError then Inr (None, httpErr)
        else
          (let trustedListURL = Host (satelliteAr icr) @ satelliteTrustedListPath env in
           case NewRequest env ''GET'' trustedListURL of
             Inl err \<Rightarrow>
               Inr (None, \<lparr>Status = StatusInternalServerError,
                           Message = ''Was not able to create the request to the trusted list.'',
                           RootError = Some err\<rparr>)
           | Inr request \<Rightarrow>
               (let trustedListRequest =
                      request\<lparr>Header := (Header request)(''Authorization'' \<mapsto> ''Bearer '' @ accessToken)\<rparr>
                in
                case globalHttpClient_Do env trustedListRequest of (trustedListResponse, err) \<Rightarrow>
                  (case (if err \<noteq> None then None else trustedListResponse) of
                     None \<Rightarrow>
                       Inr (None, \<lparr>Status = StatusBadGateway,
                                   Message = ''Was not able to retrieve the trusted list.'',
                                   RootError = err\<rparr>)
                   | Some response \<Rightarrow>
                       if StatusCode response \<noteq> 200 then
                         Inr (None, \<lparr>Status = StatusBadGateway,
                                     Message = ''Was not able to retrieve the trusted list.'',
                                     RootError = None\<rparr>)
                       else
                         (case DecodeTrustedListResponse env (Body response) of
                            Inl err \<Rightarrow>
                              Inr (None, \<lparr>Status = StatusBadGateway,
                                          Message = ''Received an invalid body from the satellite: ''
                                                      @ SprintBody env (Body response),
                                          RootError = Some err\<rparr>)
                          | Inr trustedListResponseObject \<Rightarrow>
                              (case trustedListParserFunc icr
                                      (TrustedListToken trustedListResponseObject) of
                                 (parsedToken, httpErr) \<Rightarrow>
                                   if httpErr \<noteq> zeroHttpError then Inr (None, httpErr)
                                   else
                                     (case parsedToken of
                                        None \<Rightarrow> Inl NilPointerDereference
                                      | Some t \<Rightarrow> Inr (TrustedList t, httpErr))))))))"

subsection \<open>The trust decision\<close>

text \<open>The loop \<open>for _, cert := range *trustedParty.Certificates\<close> of \<open>IsTrusted\<close>:
  decode, parse, compare, in list order. \<open>x509.ParseCertificate\<close> returns a non-nil
  certificate when it returns no error.\<close>

fun checkCertificates ::
  "environment \<Rightarrow> x509_Certificate option \<Rightarrow> model_Certificate list \<Rightarrow> panic + bool" where
  "checkCertificates env clientCertificate [] = Inr False"
| "checkCertificates env clientCertificate (cert # rest) =
     (case DecodeString env (X5c cert) of
        Inl err \<Rightarrow> Inr False
      | Inr decodedCert \<Rightarrow>
          (case ParseCertificate env decodedCert of
             Inl err \<Rightarrow> Inr False
           | Inr parsedCert \<Rightarrow>
               (case buildCertificateFingerprint env (Some parsedCert) of
                  Inl p \<Rightarrow> Inl p
                | Inr parsedFingerprint \<Rightarrow>
                    (case buildCertificateFingerprint env clientCertificate of
                       Inl p \<Rightarrow> Inl p
                     | Inr clientFingerprint \<Rightarrow>
                         if parsedFingerprint = clientFingerprint then Inr True
                         else checkCertificates env clientCertificate rest))))"

definition IsTrusted ::
  "environment \<Rightarrow> IShareTrustedParticipantRepository \<Rightarrow> x509_Certificate option \<Rightarrow>
     x509_Certificate option \<Rightarrow> string \<Rightarrow> panic + bool" where
  "IsTrusted env icr caCertificate clientCertificate clientId =
     (case buildCertificateFingerprint env caCertificate of
        Inl p \<Rightarrow> Inl p
      | Inr certificateFingerPrint \<Rightarrow>
          if contains (trustedFingerprints icr) certificateFingerPrint then Inr True
          else
            (case getTrustedParty env icr clientId of
               Inl p \<Rightarrow> Inl p
             | Inr (trustedParty, err) \<Rightarrow>
                 if err \<noteq> zeroHttpError then Inr False
                 else
                   (case trustedParty of
                      None \<Rightarrow> Inl NilPointerDereference
                    | Some party \<Rightarrow>
                        (case Certificates party of
                           None \<Rightarrow> Inl NilPointerDereference
                         | Some certs \<Rightarrow> checkCertificates env clientCertificate certs))))"

subsection \<open>The refresh of the trusted fingerprints\<close>

text \<open>The loop of \<open>updateTrustedFingerprints\<close> over the fetched list, with the slice
  \<open>updatedFingerPrints\<close> as accumulator; \<open>continue\<close> goes on with the rest.\<close>

fun collectFingerprints :: "TrustedParticipant list \<Rightarrow> string list \<Rightarrow> string list" where
  "collectFingerprints [] updatedFingerPrints = updatedFingerPrints"
| "collectFingerprints (trustedParticipant # rest) updatedFingerPrints =
     (if Validity trustedParticipant \<noteq> ''valid'' then
        collectFingerprints rest updatedFingerPrints
      else if ParticipantStatus trustedParticipant \<noteq> ''granted'' then
        collectFingerprints rest updatedFingerPrints
      else
        collectFingerprints rest
          (updatedFingerPrints @ [CertificateFingerprint trustedParticipant]))"

text \<open>\<open>updateTrustedFingerprints\<close> is declared with a value receiver,
  \<open>func (icr IShareTrustedParticipantRepository)\<close>: inside the method \<open>icr\<close> is the
  method's own copy of the struct. The function takes that copy and returns its value
  when the method ends (the value the last log line prints); the method itself returns
  nothing.\<close>

definition updateTrustedFingerprints ::
  "environment \<Rightarrow> IShareTrustedParticipantRepository \<Rightarrow>
     panic + IShareTrustedParticipantRepository" where
  "updateTrustedFingerprints env icr =
     (case getTrustedList env icr of
        Inl p \<Rightarrow> Inl p
      | Inr (trustedList, httpErr) \<Rightarrow>
          if httpErr \<noteq> zeroHttpError then Inr icr
          else
            (case trustedList of
               None \<Rightarrow> Inl NilPointerDereference
             | Some participants \<Rightarrow>
                 Inr (icr\<lparr>trustedFingerprints := collectFingerprints participants []\<rparr>)))"

text \<open>The state of a running trust store: the struct that the pointer returned by
  \<open>NewTrustedParticipantRepository\<close> points to (the one \<open>IsTrusted\<close> is called on), and
  the receiver saved in the method value \<open>icr.updateTrustedFingerprints\<close> that
  \<open>scheduleTrustedListUpdate\<close> hands to the scheduler.\<close>

record TrustStore =
  trustedParticipantRepo :: IShareTrustedParticipantRepository
  scheduledReceiver :: IShareTrustedParticipantRepository

text \<open>\<open>trustedParticipantRepo.scheduleTrustedListUpdate(updateRateInS)\<close>: the method
  has a value receiver, so it works on a copy of the struct, and the method value it
  creates saves a copy of that copy.\<close>

definition scheduleTrustedListUpdate :: "IShareTrustedParticipantRepository \<Rightarrow> TrustStore" where
  "scheduleTrustedListUpdate repo =
     (let icr = repo
      in \<lparr>trustedParticipantRepo = repo, scheduledReceiver = icr\<rparr>)"

text \<open>One tick of the scheduler calls the saved method value: the method runs on a copy
  of the saved receiver, and nothing of that copy is written back, neither to the saved
  receiver nor to the struct behind the pointer. A panic ends the task.\<close>

definition refreshTick :: "environment \<Rightarrow> TrustStore \<Rightarrow> panic + TrustStore" where
  "refreshTick env store =
     (let icr = scheduledReceiver store
      in case updateTrustedFingerprints env icr of
           Inl p \<Rightarrow> Inl p
         | Inr icr' \<Rightarrow> Inr store)"

section \<open>Package main: the customer credential verifier\<close>

text \<open>Modelled from the spec: the declarations of \<open>Claim\<close>,
  \<open>CustomerCredentialSubject\<close>, \<open>Decision\<close> and \<open>httpError\<close> of package main are
  not among the sources. A claim is "a named policy constraint carrying an allow-list of
  permitted values", a credential subject carries "a set of claimed role strings", a
  decision is "a boolean outcome plus a human-readable justification string", and the
  error is "a structured failure carrying an HTTP-status-like code, a message, and an
  optional underlying cause".\<close>

record Claim =
  Name :: string
  AllowedValues :: "string list"

record CustomerCredentialSubject =
  Roles :: "string list"

record Decision =
  allowed :: bool
  reason :: string

record httpError =
  status :: int
  message :: string
  rootError :: "error option"

definition zero_httpError :: httpError where
  "zero_httpError = \<lparr>status = 0, message = [], rootError = None\<rparr>"

definition zeroClaim :: Claim where
  "zeroClaim = \<lparr>Name = [], AllowedValues = []\<rparr>"

text \<open>Modelled from the spec: the helper \<open>contains\<close> of package main is not among the
  sources (the one above belongs to package ishare). The spec has every role "appear in
  the claim's allow-list".\<close>

definition main_contains :: "string list \<Rightarrow> string \<Rightarrow> bool" where
  "main_contains s e = (e \<in> set s)"

text \<open>The first loop of \<open>Verify\<close>: the first claim named \<open>roles\<close> replaces the zero
  claim, and \<open>break\<close> ends the search.\<close>

fun findRoleClaim :: "Claim list \<Rightarrow> Claim \<Rightarrow> Claim" where
  "findRoleClaim [] roleClaim = roleClaim"
| "findRoleClaim (claim # rest) roleClaim =
     (if Name claim = ''roles'' then claim else findRoleClaim rest roleClaim)"

text \<open>The second loop; \<open>prettyPrintObject\<close> is a helper of package main that is not
  among the sources and is a parameter. \<open>%s\<close> inserts a string as it is.\<close>

fun checkRoles :: "(Claim \<Rightarrow> string) \<Rightarrow> Claim \<Rightarrow> string list \<Rightarrow> Decision" where
  "checkRoles prettyPrintObject roleClaim [] =
     \<lparr>allowed = True, reason = ''Role claims allowed.''\<rparr>"
| "checkRoles prettyPrintObject roleClaim (role # rest) =
     (if \<not> main_contains (AllowedValues roleClaim) role then
        \<lparr>allowed = False,
         reason = ''Role '' @ role @ '' is not coverd by the roles-claim capability ''
                    @ prettyPrintObject roleClaim @ ''.''\<rparr>
      else checkRoles prettyPrintObject roleClaim rest)"

text \<open>\<open>Verify\<close>: both arguments are pointers; \<open>err\<close> is the named result, never
  assigned, so every return hands back its zero value.\<close>

definition Verify ::
  "(Claim \<Rightarrow> string) \<Rightarrow> Claim list option \<Rightarrow> CustomerCredentialSubject option \<Rightarrow>
     panic + (Decision \<times> httpError)" where
  "Verify prettyPrintObject claims credentialSubject =
     (let err = zero_httpError in
      case claims of
        None \<Rightarrow> Inl NilPointerDereference
      | Some cs \<Rightarrow>
          (let roleClaim = findRoleClaim cs zeroClaim in
           if Name roleClaim = [] then
             Inr (\<lparr>allowed = True, reason = ''No restrictions for roles exist.''\<rparr>, err)
           else if length (AllowedValues roleClaim) = 0 then
             Inr (\<lparr>allowed = False,
                   reason = ''Claim '' @ prettyPrintObject roleClaim
                              @ '' does not allow any role assignment.''\<rparr>, err)
           else
             (case credentialSubject of
                None \<Rightarrow> Inl NilPointerDereference
              | Some subject \<Rightarrow>
                  Inr (checkRoles prettyPrintObject roleClaim (Roles subject), err))))"

section \<open>Notions used to state the properties\<close>

text \<open>The value of an upper-case hexadecimal digit; lower-case letters are no digits.\<close>

definition upperHexValue :: "char \<Rightarrow> nat option" where
  "upperHexValue c =
     map_of [(CHR ''0'', 0), (CHR ''1'', 1), (CHR ''2'', 2), (CHR ''3'', 3), (CHR ''4'', 4),
             (CHR ''5'', 5), (CHR ''6'', 6), (CHR ''7'', 7), (CHR ''8'', 8), (CHR ''9'', 9),
             (CHR ''A'', 10), (CHR ''B'', 11), (CHR ''C'', 12), (CHR ''D'', 13),
             (CHR ''E'', 14), (CHR ''F'', 15)] c"

text \<open>The fingerprint of a registered certificate, when it is well-formed: its
  \<open>X5c\<close> decodes as base64 and the result parses as a certificate.\<close>

definition registeredFingerprint :: "environment \<Rightarrow> model_Certificate \<Rightarrow> string option" where
  "registeredFingerprint env cert =
     (case DecodeString env (X5c cert) of
        Inl err \<Rightarrow> None
      | Inr decodedCert \<Rightarrow>
          (case ParseCertificate env decodedCert of
             Inl err \<Rightarrow> None
           | Inr parsedCert \<Rightarrow>
               (case buildCertificateFingerprint env (Some parsedCert) of
                  Inl p \<Rightarrow> None
                | Inr fp \<Rightarrow> Some fp)))"

text \<open>An entry of the trusted list counts when it is both valid and granted.\<close>

definition validAndGranted :: "TrustedParticipant \<Rightarrow> bool" where
  "validAndGranted p = (Validity p = ''valid'' \<and> ParticipantStatus p = ''granted'')"

section \<open>Concrete inputs\<close>

text \<open>A stand-in for the digest function in the examples: 32 copies of the first byte
  of the input.\<close>

definition sampleSum256 :: "byte list \<Rightarrow> digest" where
  "sampleSum256 bs = Abs_digest (replicate 32 (case bs of [] \<Rightarrow> 0 | b # _ \<Rightarrow> b))"

definition sampleEnv :: environment where
  "sampleEnv =
     \<lparr>Sum256 = sampleSum256,
      DecodeString =
        (\<lambda>s. if s = ''QQ=='' then Inr [0x41]
             else if s = ''Qg=='' then Inr [0x42]
             else if s = ''Qw=='' then Inr [0x43]
             else Inl ''illegal base64 data at input byte 0''),
      ParseCertificate =
        (\<lambda>bs. if bs = [0x43] then Inl ''x509: malformed certificate'' else Inr \<lparr>Raw = bs\<rparr>),
      NewRequest = (\<lambda>m u. Inr \<lparr>Method = m, URL = u, Header = Map.empty\<rparr>),
      globalHttpClient_Do = (\<lambda>r. (Some \<lparr>StatusCode = 200, Body = URL r\<rparr>, None)),
      DecodeTrustedPartyResponse = (\<lambda>b. Inr \<lparr>PartyToken = b\<rparr>),
      DecodeTrustedListResponse = (\<lambda>b. Inr \<lparr>TrustedListToken = b\<rparr>),
      SprintBody = (\<lambda>b. b),
      satelliteTrustedListPath = ''/trusted_list''\<rparr>"

definition sampleTrustedList :: "TrustedParticipant list" where
  "sampleTrustedList =
     [\<lparr>Validity = ''valid'', ParticipantStatus = ''granted'', CertificateFingerprint = ''P1''\<rparr>,
      \<lparr>Validity = ''pending'', ParticipantStatus = ''granted'', CertificateFingerprint = ''P2''\<rparr>,
      \<lparr>Validity = ''valid'', ParticipantStatus = ''revoked'', CertificateFingerprint = ''P3''\<rparr>]"

definition unauthorized :: HttpError where
  "unauthorized = \<lparr>Status = 401, Message = ''unauthorized'', RootError = None\<rparr>"

text \<open>A repository with the given trusted fingerprints, whose token function answers
  with the given error and whose party parser answers with the given certificates.\<close>

definition sampleRepo ::
  "string list \<Rightarrow> HttpError \<Rightarrow> model_Certificate list \<Rightarrow> IShareTrustedParticipantRepository" where
  "sampleRepo fingerprints tokenError certs =
     \<lparr>satelliteAr = \<lparr>Id = ''EU.EORI.NL000000000'', Host = ''https://scheme.isharetest.net'',
                      TokenPath = ''/connect/token''\<rparr>,
      trustedFingerprints = fingerprints,
      tokenFunc = (\<lambda>ar. (if tokenError = zeroHttpError then ''token'' else [], tokenError)),
      trustedListParserFunc =
        (\<lambda>t. (Some \<lparr>TrustedList = Some sampleTrustedList\<rparr>, zeroHttpError)),
      partyParseFunc =
        (\<lambda>t. (Some \<lparr>PartyInfo = Some \<lparr>Certificates = Some certs\<rparr>\<rparr>, zeroHttpError))\<rparr>"

definition fingerprint41 :: string where
  "fingerprint41 = concat (replicate 32 ''41'')"

section \<open>Auxiliary facts\<close>

lemma contains_iff: "contains s e \<longleftrightarrow> e \<in> set s"
  by (induction s) auto

lemma writeFingerprint_concat:
  "writeFingerprint i fs buf = buf @ concat (map Sprintf_02X fs)"
  by (induction fs arbitrary: i buf) simp_all

lemma length_Rep_digest: "length (Rep_digest d) = 32"
  using Rep_digest [of d] by simp

lemma length_concat_Sprintf: "length (concat (map Sprintf_02X fs)) = 2 * length fs"
  by (induction fs) (simp_all add: Sprintf_02X_def)

lemma upt_16: "[0..<16] = [0, 1, 2, 3, 4, 5, 6, 7, 8, 9, 10, 11, 12, 13, 14, 15::nat]"
  by code_simp

lemma all_hexDigits:
  "list_all (\<lambda>n. upperHexValue (hexDigit n) = Some n)
     [0, 1, 2, 3, 4, 5, 6, 7, 8, 9, 10, 11, 12, 13, 14, 15]"
  by (simp add: upperHexValue_def hexDigit_def)

lemma upperHexValue_hexDigit:
  assumes "n < 16"
  shows "upperHexValue (hexDigit n) = Some n"
proof -
  from assms have "n \<in> set [0..<16]" by simp
  with all_hexDigits show ?thesis
    unfolding upt_16 list_all_iff by blast
qed

lemma unat_byte_div: "unat (f :: byte) div 16 < 16"
proof -
  have "unat f < 2 ^ LENGTH(8)" by (rule unsigned_less)
  then show ?thesis by simp
qed

lemma Sprintf_02X_value:
  "map upperHexValue (Sprintf_02X f) = [Some (unat f div 16), Some (unat f mod 16)]"
  by (simp add: Sprintf_02X_def upperHexValue_hexDigit unat_byte_div)

lemma buildCertificateFingerprint_Some:
  "buildCertificateFingerprint env (Some c) =
     Inr (concat (map Sprintf_02X (Rep_digest (Sum256 env (Raw c)))))"
  by (simp add: buildCertificateFingerprint_def writeFingerprint_concat)

lemma Rep_sampleSum256:
  "Rep_digest (sampleSum256 bs) = replicate 32 (case bs of [] \<Rightarrow> 0 | b # _ \<Rightarrow> b)"
  unfolding sampleSum256_def by (rule Abs_digest_inverse) simp

lemma sample_fingerprint:
  "buildCertificateFingerprint sampleEnv (Some \<lparr>Raw = b # bs\<rparr>) =
     Inr (concat (replicate 32 (Sprintf_02X b)))"
  by (simp add: buildCertificateFingerprint_Some sampleEnv_def Rep_sampleSum256 map_replicate_const)

lemma Sprintf_02X_41: "Sprintf_02X 0x41 = ''41''"
  by (simp add: Sprintf_02X_def hexDigit_def)

lemma Sprintf_02X_42: "Sprintf_02X 0x42 = ''42''"
  by (simp add: Sprintf_02X_def hexDigit_def)

lemma fingerprint_certA:
  "buildCertificateFingerprint sampleEnv (Some \<lparr>Raw = [0x41]\<rparr>) = Inr fingerprint41"
  by (simp add: sample_fingerprint Sprintf_02X_41 fingerprint41_def)

section \<open>The fingerprint codec\<close>

text \<open>
  C8. \<open>buildCertificateFingerprint\<close> of a certificate is a function of the certificate's
  raw bytes alone: it is the digest \<open>Sum256\<close> of \<open>Raw\<close>, each of its 32 bytes written
  by \<open>%02X\<close>, with nothing in between. The string has exactly 64 characters, every one
  an upper-case hexadecimal digit, and the two digits of a byte are its high and its low
  half. A certificate with the same raw bytes has the same fingerprint.
\<close>

theorem buildCertificateFingerprint_hex_sha256:
  "\<exists>fp. buildCertificateFingerprint env (Some c) = Inr fp
     \<and> fp = concat (map Sprintf_02X (Rep_digest (Sum256 env (Raw c))))
     \<and> length fp = 64
     \<and> map upperHexValue fp =
         concat (map (\<lambda>b. [Some (unat b div 16), Some (unat b mod 16)])
                     (Rep_digest (Sum256 env (Raw c))))
     \<and> (\<forall>c'. Raw c' = Raw c \<longrightarrow>
           buildCertificateFingerprint env (Some c') = Inr fp)"
proof -
  let ?d = "Rep_digest (Sum256 env (Raw c))"
  have "map upperHexValue (concat (map Sprintf_02X ?d)) =
          concat (map (\<lambda>b. [Some (unat b div 16), Some (unat b mod 16)]) ?d)"
    by (simp add: map_concat comp_def Sprintf_02X_value)
  moreover have "length (concat (map Sprintf_02X ?d)) = 64"
    by (simp add: length_concat_Sprintf length_Rep_digest)
  ultimately show ?thesis
    by (simp add: buildCertificateFingerprint_Some)
qed

theorem buildCertificateFingerprint_hex_sha256_witness:
  "buildCertificateFingerprint sampleEnv (Some \<lparr>Raw = [0x41]\<rparr>) = Inr fingerprint41
     \<and> length fingerprint41 = 64
     \<and> map upperHexValue fingerprint41 = concat (replicate 32 [Some 4, Some 1])"
proof -
  have digest: "Rep_digest (Sum256 sampleEnv [0x41]) = replicate 32 0x41"
    by (simp add: sampleEnv_def Rep_sampleSum256)
  from buildCertificateFingerprint_hex_sha256 [of sampleEnv "\<lparr>Raw = [0x41]\<rparr>"]
  obtain fp where fp: "buildCertificateFingerprint sampleEnv (Some \<lparr>Raw = [0x41]\<rparr>) = Inr fp"
    "length fp = 64"
    "map upperHexValue fp =
       concat (map (\<lambda>b. [Some (unat b div 16), Some (unat b mod 16)])
                   (Rep_digest (Sum256 sampleEnv (Raw \<lparr>Raw = [0x41]\<rparr>))))"
    by blast
  from fp(1) have "fp = fingerprint41"
    by (simp add: fingerprint_certA)
  with fp show ?thesis
    by (simp add: digest map_replicate_const)
qed

section \<open>The trust decision\<close>

text \<open>
  C1. When the fingerprint of the CA certificate is one of the repository's trusted
  fingerprints, \<open>IsTrusted\<close> returns true. Nothing else is consulted: the answer is the
  same for every client certificate and client id, and in every repository and
  environment that agree with the given ones on the trusted fingerprints and on the
  digest function, whatever their token function, HTTP client, decoders and parsers do.
\<close>

theorem IsTrusted_trusted_ca:
  assumes "buildCertificateFingerprint env (Some caCertificate) = Inr fp"
    and "fp \<in> set (trustedFingerprints icr)"
    and "Sum256 env' = Sum256 env"
    and "trustedFingerprints icr' = trustedFingerprints icr"
  shows "IsTrusted env' icr' (Some caCertificate) clientCertificate clientId = Inr True"
proof -
  from assms(1, 3) have "buildCertificateFingerprint env' (Some caCertificate) = Inr fp"
    by (simp add: buildCertificateFingerprint_Some)
  with assms(2, 4) show ?thesis
    by (simp add: IsTrusted_def contains_iff)
qed

theorem IsTrusted_trusted_ca_witness:
  "IsTrusted sampleEnv (sampleRepo [''AA11BB22'', fingerprint41] unauthorized [])
     (Some \<lparr>Raw = [0x41]\<rparr>) None ''EU.EORI.NL999999999'' = Inr True"
  using IsTrusted_trusted_ca [of sampleEnv "\<lparr>Raw = [0x41]\<rparr>" fingerprint41
      "sampleRepo [''AA11BB22'', fingerprint41] unauthorized []" sampleEnv
      "sampleRepo [''AA11BB22'', fingerprint41] unauthorized []" None "''EU.EORI.NL999999999''"]
  by (simp add: fingerprint_certA sampleRepo_def)

subsection \<open>The check of the party's certificates\<close>

lemma registeredFingerprint_None_iff:
  "registeredFingerprint env cert = None \<longleftrightarrow>
     (\<exists>e. DecodeString env (X5c cert) = Inl e)
     \<or> (\<exists>der e. DecodeString env (X5c cert) = Inr der \<and> ParseCertificate env der = Inl e)"
  by (auto simp add: registeredFingerprint_def buildCertificateFingerprint_Some
      split: sum.splits)

lemma checkCertificates_Cons:
  assumes "buildCertificateFingerprint env clientCertificate = Inr clientFp"
  shows "checkCertificates env clientCertificate (cert # rest) =
     (case registeredFingerprint env cert of
        None \<Rightarrow> Inr False
      | Some fp \<Rightarrow>
          if fp = clientFp then Inr True
          else checkCertificates env clientCertificate rest)"
  using assms
  by (simp add: registeredFingerprint_def buildCertificateFingerprint_Some split: sum.splits)

lemma checkCertificates_wellformed:
  assumes "buildCertificateFingerprint env clientCertificate = Inr clientFp"
    and "\<forall>cert \<in> set certs. registeredFingerprint env cert \<noteq> None"
  shows "checkCertificates env clientCertificate certs =
     Inr (\<exists>cert \<in> set certs. registeredFingerprint env cert = Some clientFp)"
  using assms(2)
proof (induction certs)
  case Nil
  show ?case by simp
next
  case (Cons cert certs)
  then obtain fp where "registeredFingerprint env cert = Some fp" by auto
  with Cons show ?case
    by (auto simp add: checkCertificates_Cons [OF assms(1)] simp del: checkCertificates.simps(2))
qed

lemma checkCertificates_malformed:
  assumes "buildCertificateFingerprint env clientCertificate = Inr clientFp"
    and "\<forall>cert \<in> set pre. \<exists>fp. registeredFingerprint env cert = Some fp \<and> fp \<noteq> clientFp"
    and "registeredFingerprint env bad = None"
  shows "checkCertificates env clientCertificate (pre @ bad # rest) = Inr False"
  using assms(2)
proof (induction pre)
  case Nil
  show ?case by (simp add: checkCertificates_Cons [OF assms(1)] assms(3) del: checkCertificates.simps(2))
next
  case (Cons cert pre)
  then obtain fp where "registeredFingerprint env cert = Some fp" "fp \<noteq> clientFp" by auto
  with Cons show ?case
    by (simp add: checkCertificates_Cons [OF assms(1)] del: checkCertificates.simps(2))
qed

lemma checkCertificates_match:
  assumes "buildCertificateFingerprint env clientCertificate = Inr clientFp"
    and "\<forall>cert \<in> set pre. registeredFingerprint env cert \<noteq> None"
    and "registeredFingerprint env match = Some clientFp"
  shows "checkCertificates env clientCertificate (pre @ match # rest) = Inr True"
  using assms(2)
proof (induction pre)
  case Nil
  show ?case by (simp add: checkCertificates_Cons [OF assms(1)] assms(3) del: checkCertificates.simps(2))
next
  case (Cons cert pre)
  then obtain fp where "registeredFingerprint env cert = Some fp" by auto
  with Cons show ?case
    by (simp add: checkCertificates_Cons [OF assms(1)] del: checkCertificates.simps(2))
qed

lemma IsTrusted_after_lookup:
  assumes "buildCertificateFingerprint env caCertificate = Inr caFp"
    and "caFp \<notin> set (trustedFingerprints icr)"
    and "getTrustedParty env icr clientId = Inr (Some party, zeroHttpError)"
    and "Certificates party = Some certs"
  shows "IsTrusted env icr caCertificate clientCertificate clientId =
           checkCertificates env clientCertificate certs"
  using assms by (simp add: IsTrusted_def contains_iff)

subsection \<open>The concrete inputs evaluated\<close>

lemma replicate_32: "replicate 32 x = x # replicate 31 x"
  by (simp add: eval_nat_numeral)

lemma Sprintf_02X_43: "Sprintf_02X 0x43 = ''43''"
  by (simp add: Sprintf_02X_def hexDigit_def)

lemma sampleRepo_fingerprints: "trustedFingerprints (sampleRepo fps e certs) = fps"
  by (simp add: sampleRepo_def)

lemma unauthorized_nonzero: "unauthorized \<noteq> zeroHttpError"
  by (simp add: unauthorized_def zeroHttpError_def)

lemma sample_getTrustedParty:
  "getTrustedParty sampleEnv (sampleRepo fps zeroHttpError certs) ident =
     Inr (Some \<lparr>Certificates = Some certs\<rparr>, zeroHttpError)"
  by (simp add: getTrustedParty_def sampleEnv_def sampleRepo_def)

lemma sample_getTrustedParty_unauthorized:
  "getTrustedParty sampleEnv (sampleRepo fps unauthorized certs) ident = Inr (None, unauthorized)"
  by (simp add: getTrustedParty_def sampleRepo_def unauthorized_def zeroHttpError_def)

lemma sample_registered_41:
  "registeredFingerprint sampleEnv \<lparr>X5c = ''QQ==''\<rparr> = Some fingerprint41"
proof -
  have "DecodeString sampleEnv ''QQ=='' = Inr [0x41]"
    "ParseCertificate sampleEnv [0x41] = Inr \<lparr>Raw = [0x41]\<rparr>"
    by (simp_all add: sampleEnv_def)
  then show ?thesis
    by (simp add: registeredFingerprint_def fingerprint_certA)
qed

lemma sample_registered_42:
  "registeredFingerprint sampleEnv \<lparr>X5c = ''Qg==''\<rparr> = Some (concat (replicate 32 ''42''))"
proof -
  have "DecodeString sampleEnv ''Qg=='' = Inr [0x42]"
    "ParseCertificate sampleEnv [0x42] = Inr \<lparr>Raw = [0x42]\<rparr>"
    by (simp_all add: sampleEnv_def)
  then show ?thesis
    by (simp add: registeredFingerprint_def sample_fingerprint Sprintf_02X_42)
qed

lemma sample_unparsable:
  "DecodeString sampleEnv ''Qw=='' = Inr [0x43]"
  "ParseCertificate sampleEnv [0x43] = Inl ''x509: malformed certificate''"
  by (simp_all add: sampleEnv_def)

lemma sample_undecodable:
  "DecodeString sampleEnv ''%%'' = Inl ''illegal base64 data at input byte 0''"
  by (simp add: sampleEnv_def)

lemma fingerprint_certC:
  "buildCertificateFingerprint sampleEnv (Some \<lparr>Raw = [0x43]\<rparr>) =
     Inr (concat (replicate 32 ''43''))"
  by (simp add: sample_fingerprint Sprintf_02X_43)

lemma sample_fingerprints_differ:
  "concat (replicate 32 ''42'') \<noteq> fingerprint41"
  "concat (replicate 32 ''43'') \<noteq> fingerprint41"
  "concat (replicate 32 ''43'') \<noteq> ''AA11BB22''"
  "fingerprint41 \<noteq> ''AA11BB22''"
  by (simp_all add: fingerprint41_def replicate_32)

subsection \<open>Properties of the trust decision after a miss\<close>

text \<open>
  C2. When the fingerprint of the CA certificate is not among the trusted fingerprints
  and \<open>getTrustedParty\<close> returns an \<open>HttpError\<close> other than the zero value, whatever
  stage of the lookup produced it, \<open>IsTrusted\<close> returns false.
\<close>

theorem IsTrusted_lookup_error:
  assumes "buildCertificateFingerprint env caCertificate = Inr caFp"
    and "caFp \<notin> set (trustedFingerprints icr)"
    and "getTrustedParty env icr clientId = Inr (trustedParty, err)"
    and "err \<noteq> zeroHttpError"
  shows "IsTrusted env icr caCertificate clientCertificate clientId = Inr False"
  using assms by (simp add: IsTrusted_def contains_iff)

theorem IsTrusted_lookup_error_witness:
  "IsTrusted sampleEnv (sampleRepo [''AA11BB22''] unauthorized [\<lparr>X5c = ''QQ==''\<rparr>])
     (Some \<lparr>Raw = [0x43]\<rparr>) (Some \<lparr>Raw = [0x41]\<rparr>) ''EU.EORI.NL999999999'' = Inr False"
  using IsTrusted_lookup_error [of sampleEnv "Some \<lparr>Raw = [0x43]\<rparr>" "concat (replicate 32 ''43'')"
      "sampleRepo [''AA11BB22''] unauthorized [\<lparr>X5c = ''QQ==''\<rparr>]" "''EU.EORI.NL999999999''"
      None unauthorized "Some \<lparr>Raw = [0x41]\<rparr>"]
  by (simp add: fingerprint_certC sample_getTrustedParty_unauthorized sample_fingerprints_differ
      sampleRepo_fingerprints unauthorized_nonzero)

text \<open>
  C4. When the fingerprint of the CA certificate is not among the trusted fingerprints,
  the lookup succeeds and every registered certificate is well-formed, \<open>IsTrusted\<close>
  returns true exactly when some registered certificate has the fingerprint of the client
  certificate; it returns false when the list is exhausted without a match, so also for
  the empty list.
\<close>

theorem IsTrusted_party_certificates:
  assumes "buildCertificateFingerprint env caCertificate = Inr caFp"
    and "caFp \<notin> set (trustedFingerprints icr)"
    and "getTrustedParty env icr clientId = Inr (Some party, zeroHttpError)"
    and "Certificates party = Some certs"
    and "\<forall>cert \<in> set certs. registeredFingerprint env cert \<noteq> None"
    and "buildCertificateFingerprint env clientCertificate = Inr clientFp"
  shows "IsTrusted env icr caCertificate clientCertificate clientId =
           Inr (\<exists>cert \<in> set certs. registeredFingerprint env cert = Some clientFp)"
  using IsTrusted_after_lookup [OF assms(1-4)] checkCertificates_wellformed [OF assms(6, 5)]
  by simp

theorem IsTrusted_party_certificates_witness:
  "IsTrusted sampleEnv
     (sampleRepo [''AA11BB22''] zeroHttpError [\<lparr>X5c = ''Qg==''\<rparr>, \<lparr>X5c = ''QQ==''\<rparr>])
     (Some \<lparr>Raw = [0x43]\<rparr>) (Some \<lparr>Raw = [0x41]\<rparr>) ''EU.EORI.NL999999999'' = Inr True"
  using IsTrusted_party_certificates [of sampleEnv "Some \<lparr>Raw = [0x43]\<rparr>"
      "concat (replicate 32 ''43'')"
      "sampleRepo [''AA11BB22''] zeroHttpError [\<lparr>X5c = ''Qg==''\<rparr>, \<lparr>X5c = ''QQ==''\<rparr>]"
      "''EU.EORI.NL999999999''"
      "\<lparr>Certificates = Some [\<lparr>X5c = ''Qg==''\<rparr>, \<lparr>X5c = ''QQ==''\<rparr>]\<rparr>"
      "[\<lparr>X5c = ''Qg==''\<rparr>, \<lparr>X5c = ''QQ==''\<rparr>]"
      "Some \<lparr>Raw = [0x41]\<rparr>" fingerprint41]
  by (simp add: fingerprint_certC fingerprint_certA sample_getTrustedParty
      sample_fingerprints_differ sample_registered_41 sample_registered_42
      sampleRepo_fingerprints)

text \<open>
  C5. When the check of the party's certificates comes to a certificate that fails to
  decode or to parse (the certificates before it are well-formed and none of them has the
  fingerprint of the client certificate), \<open>IsTrusted\<close> returns false, whatever follows
  in the list: the malformed certificate is not skipped, and a matching certificate after
  it does not help.
\<close>

theorem IsTrusted_malformed_certificate:
  assumes "buildCertificateFingerprint env caCertificate = Inr caFp"
    and "caFp \<notin> set (trustedFingerprints icr)"
    and "getTrustedParty env icr clientId = Inr (Some party, zeroHttpError)"
    and "Certificates party = Some (pre @ bad # rest)"
    and "buildCertificateFingerprint env clientCertificate = Inr clientFp"
    and "\<forall>cert \<in> set pre. \<exists>fp. registeredFingerprint env cert = Some fp \<and> fp \<noteq> clientFp"
    and "(\<exists>e. DecodeString env (X5c bad) = Inl e)
         \<or> (\<exists>der e. DecodeString env (X5c bad) = Inr der \<and> ParseCertificate env der = Inl e)"
  shows "IsTrusted env icr caCertificate clientCertificate clientId = Inr False"
proof -
  from assms(7) have "registeredFingerprint env bad = None"
    by (simp add: registeredFingerprint_None_iff)
  with assms(5, 6) have "checkCertificates env clientCertificate (pre @ bad # rest) = Inr False"
    by (rule checkCertificates_malformed)
  with IsTrusted_after_lookup [OF assms(1-4)] show ?thesis by simp
qed

theorem IsTrusted_malformed_certificate_witness:
  "IsTrusted sampleEnv
     (sampleRepo [''AA11BB22''] zeroHttpError
        [\<lparr>X5c = ''Qg==''\<rparr>, \<lparr>X5c = ''Qw==''\<rparr>, \<lparr>X5c = ''QQ==''\<rparr>])
     (Some \<lparr>Raw = [0x43]\<rparr>) (Some \<lparr>Raw = [0x41]\<rparr>) ''EU.EORI.NL999999999'' = Inr False"
  using IsTrusted_malformed_certificate [of sampleEnv "Some \<lparr>Raw = [0x43]\<rparr>"
      "concat (replicate 32 ''43'')"
      "sampleRepo [''AA11BB22''] zeroHttpError
         [\<lparr>X5c = ''Qg==''\<rparr>, \<lparr>X5c = ''Qw==''\<rparr>, \<lparr>X5c = ''QQ==''\<rparr>]"
      "''EU.EORI.NL999999999''"
      "\<lparr>Certificates = Some [\<lparr>X5c = ''Qg==''\<rparr>, \<lparr>X5c = ''Qw==''\<rparr>, \<lparr>X5c = ''QQ==''\<rparr>]\<rparr>"
      "[\<lparr>X5c = ''Qg==''\<rparr>]" "\<lparr>X5c = ''Qw==''\<rparr>" "[\<lparr>X5c = ''QQ==''\<rparr>]"
      "Some \<lparr>Raw = [0x41]\<rparr>" fingerprint41]
  by (simp add: fingerprint_certC fingerprint_certA sample_getTrustedParty
      sample_fingerprints_differ sample_registered_42 sample_unparsable
      sampleRepo_fingerprints)

text \<open>
  C10. The certificates are examined in list order, one at a time. When the certificates
  up to a certificate with the fingerprint of the client certificate are all well-formed,
  \<open>IsTrusted\<close> returns true whatever follows in the list; nothing is assumed about the
  certificates after the match, which may be malformed.
\<close>

theorem IsTrusted_match_before_malformed:
  assumes "buildCertificateFingerprint env caCertificate = Inr caFp"
    and "caFp \<notin> set (trustedFingerprints icr)"
    and "getTrustedParty env icr clientId = Inr (Some party, zeroHttpError)"
    and "Certificates party = Some (pre @ match # rest)"
    and "buildCertificateFingerprint env clientCertificate = Inr clientFp"
    and "\<forall>cert \<in> set pre. registeredFingerprint env cert \<noteq> None"
    and "registeredFingerprint env match = Some clientFp"
  shows "IsTrusted env icr caCertificate clientCertificate clientId = Inr True"
  using IsTrusted_after_lookup [OF assms(1-4)] checkCertificates_match [OF assms(5-7)]
  by simp

theorem IsTrusted_match_before_malformed_witness:
  "IsTrusted sampleEnv
     (sampleRepo [''AA11BB22''] zeroHttpError
        [\<lparr>X5c = ''Qg==''\<rparr>, \<lparr>X5c = ''QQ==''\<rparr>, \<lparr>X5c = ''%%''\<rparr>])
     (Some \<lparr>Raw = [0x43]\<rparr>) (Some \<lparr>Raw = [0x41]\<rparr>) ''EU.EORI.NL999999999'' = Inr True
   \<and> registeredFingerprint sampleEnv \<lparr>X5c = ''%%''\<rparr> = None"
  using IsTrusted_match_before_malformed [of sampleEnv "Some \<lparr>Raw = [0x43]\<rparr>"
      "concat (replicate 32 ''43'')"
      "sampleRepo [''AA11BB22''] zeroHttpError
         [\<lparr>X5c = ''Qg==''\<rparr>, \<lparr>X5c = ''QQ==''\<rparr>, \<lparr>X5c = ''%%''\<rparr>]"
      "''EU.EORI.NL999999999''"
      "\<lparr>Certificates = Some [\<lparr>X5c = ''Qg==''\<rparr>, \<lparr>X5c = ''QQ==''\<rparr>, \<lparr>X5c = ''%%''\<rparr>]\<rparr>"
      "[\<lparr>X5c = ''Qg==''\<rparr>]" "\<lparr>X5c = ''QQ==''\<rparr>" "[\<lparr>X5c = ''%%''\<rparr>]"
      "Some \<lparr>Raw = [0x41]\<rparr>" fingerprint41]
  by (simp add: fingerprint_certC fingerprint_certA sample_getTrustedParty
      sample_fingerprints_differ sample_registered_41 sample_registered_42
      sampleRepo_fingerprints registeredFingerprint_None_iff sample_undecodable)

section \<open>The refresh\<close>

lemma collectFingerprints_filter:
  "collectFingerprints ps acc = acc @ map CertificateFingerprint (filter validAndGranted ps)"
  by (induction ps arbitrary: acc) (simp_all add: validAndGranted_def)

lemma updateTrustedFingerprints_success:
  assumes "getTrustedList env icr = Inr (Some participants, zeroHttpError)"
  shows "updateTrustedFingerprints env icr =
     Inr (icr\<lparr>trustedFingerprints := map CertificateFingerprint (filter validAndGranted participants)\<rparr>)"
  using assms by (simp add: updateTrustedFingerprints_def collectFingerprints_filter)

lemma refreshTick_keeps_store:
  assumes "refreshTick env store = Inr store'"
  shows "store' = store"
  using assms by (simp add: refreshTick_def split: sum.splits)

lemma sample_getTrustedList:
  "getTrustedList sampleEnv (sampleRepo fps zeroHttpError certs) =
     Inr (Some sampleTrustedList, zeroHttpError)"
  by (simp add: getTrustedList_def sampleEnv_def sampleRepo_def)

lemma sample_getTrustedList_unauthorized:
  "getTrustedList sampleEnv (sampleRepo fps unauthorized certs) = Inr (None, unauthorized)"
  by (simp add: getTrustedList_def sampleRepo_def unauthorized_def zeroHttpError_def)

lemma sample_filter: "map CertificateFingerprint (filter validAndGranted sampleTrustedList) = [''P1'']"
  by (simp add: sampleTrustedList_def validAndGranted_def)

text \<open>
  C3 (the code departs from it). The claim's scenario: the seed is \<open>AA11BB22\<close> and the
  fetch succeeds with the participants (valid, granted, P1), (pending, granted, P2) and
  (valid, revoked, P3), of which only the first is valid and granted. The method computes
  the list \<open>[P1]\<close> and assigns it to the field of its receiver copy; after the tick both
  the struct that \<open>IsTrusted\<close> reads and the receiver saved for the next tick still hold
  the seed \<open>[AA11BB22]\<close>.
\<close>

theorem refreshTick_drops_update:
  "getTrustedList sampleEnv (sampleRepo [''AA11BB22''] zeroHttpError []) =
     Inr (Some sampleTrustedList, zeroHttpError)
   \<and> map CertificateFingerprint (filter validAndGranted sampleTrustedList) = [''P1'']
   \<and> (\<exists>icr'. updateTrustedFingerprints sampleEnv
                 (scheduledReceiver (scheduleTrustedListUpdate (sampleRepo [''AA11BB22''] zeroHttpError [])))
               = Inr icr'
             \<and> trustedFingerprints icr' = [''P1''])
   \<and> (\<exists>store'. refreshTick sampleEnv
                   (scheduleTrustedListUpdate (sampleRepo [''AA11BB22''] zeroHttpError []))
                 = Inr store'
             \<and> trustedFingerprints (trustedParticipantRepo store') = [''AA11BB22'']
             \<and> trustedFingerprints (scheduledReceiver store') = [''AA11BB22''])"
  by (simp add: refreshTick_def scheduleTrustedListUpdate_def
      updateTrustedFingerprints_success [OF sample_getTrustedList] sample_getTrustedList
      sample_filter sampleRepo_fingerprints)

text \<open>
  C6. When the fetch of the trusted list returns an \<open>HttpError\<close> other than the zero
  value, the refresh returns before it touches the fingerprints: the method's receiver
  copy is unchanged when it ends, and the tick leaves the whole store, with the trusted
  fingerprints that \<open>IsTrusted\<close> reads, as it was.
\<close>

theorem refresh_error_keeps_fingerprints:
  assumes "getTrustedList env (scheduledReceiver store) = Inr (trustedList, httpErr)"
    and "httpErr \<noteq> zeroHttpError"
  shows "updateTrustedFingerprints env (scheduledReceiver store) = Inr (scheduledReceiver store)
     \<and> refreshTick env store = Inr store"
  using assms by (simp add: updateTrustedFingerprints_def refreshTick_def)

theorem refresh_error_keeps_fingerprints_witness:
  "refreshTick sampleEnv (scheduleTrustedListUpdate (sampleRepo [''AA11BB22''] unauthorized []))
     = Inr (scheduleTrustedListUpdate (sampleRepo [''AA11BB22''] unauthorized []))
   \<and> trustedFingerprints (trustedParticipantRepo
         (scheduleTrustedListUpdate (sampleRepo [''AA11BB22''] unauthorized []))) = [''AA11BB22'']"
  using refresh_error_keeps_fingerprints [of sampleEnv
      "scheduleTrustedListUpdate (sampleRepo [''AA11BB22''] unauthorized [])" None unauthorized]
  by (simp add: scheduleTrustedListUpdate_def sample_getTrustedList_unauthorized
      unauthorized_nonzero sampleRepo_fingerprints)

section \<open>Failures of the party lookup\<close>

lemma getTrustedParty_no_error:
  assumes "getTrustedParty env icr ident = Inr (trustedParty, zeroHttpError)"
  shows "\<exists>accessToken request response partyResponseObject parsedToken.
           tokenFunc icr (satelliteAr icr) = (accessToken, zeroHttpError)
         \<and> NewRequest env ''GET'' (Host (satelliteAr icr) @ satellitePartyPath @ ident) = Inr request
         \<and> globalHttpClient_Do env
               (request\<lparr>Header := (Header request)(''Authorization'' \<mapsto> ''Bearer '' @ accessToken)\<rparr>)
             = (Some response, None)
         \<and> StatusCode response = 200
         \<and> DecodeTrustedPartyResponse env (Body response) = Inr partyResponseObject
         \<and> partyParseFunc icr (PartyToken partyResponseObject) = (Some parsedToken, zeroHttpError)
         \<and> trustedParty = PartyInfo parsedToken"
  using assms
  by (auto simp add: getTrustedParty_def Let_def zeroHttpError_def
      StatusBadGateway_def StatusInternalServerError_def
      split: prod.splits sum.splits option.splits if_splits)

section \<open>The customer credential verifier\<close>

lemma findRoleClaim_find:
  "findRoleClaim cs roleClaim =
     (case find (\<lambda>c. Name c = ''roles'') cs of None \<Rightarrow> roleClaim | Some c \<Rightarrow> c)"
  by (induction cs) simp_all

lemma find_roles_Name: "find (\<lambda>c. Name c = ''roles'') cs = Some rc \<Longrightarrow> Name rc = ''roles''"
  by (induction cs) (auto split: if_splits)

lemma checkRoles_covered:
  "set roles \<subseteq> set (AllowedValues roleClaim) \<Longrightarrow>
     checkRoles pp roleClaim roles = \<lparr>allowed = True, reason = ''Role claims allowed.''\<rparr>"
  by (induction roles) (simp_all add: main_contains_def)

lemma checkRoles_uncovered:
  "find (\<lambda>r. r \<notin> set (AllowedValues roleClaim)) roles = Some role \<Longrightarrow>
     checkRoles pp roleClaim roles =
       \<lparr>allowed = False,
        reason = ''Role '' @ role @ '' is not coverd by the roles-claim capability ''
                   @ pp roleClaim @ ''.''\<rparr>"
  by (induction roles) (auto simp add: main_contains_def split: if_splits)

lemma checkRoles_reason: "reason (checkRoles pp roleClaim roles) \<noteq> []"
  by (induction roles) simp_all

lemma Verify_no_roles_claim:
  assumes "find (\<lambda>c. Name c = ''roles'') cs = None"
  shows "Verify pp (Some cs) subject =
     Inr (\<lparr>allowed = True, reason = ''No restrictions for roles exist.''\<rparr>, zero_httpError)"
  using assms by (simp add: Verify_def findRoleClaim_find zeroClaim_def)

lemma Verify_roles_claim:
  assumes "find (\<lambda>c. Name c = ''roles'') cs = Some rc"
  shows "Verify pp (Some cs) (Some subject) =
     Inr (if AllowedValues rc = [] then
            \<lparr>allowed = False,
             reason = ''Claim '' @ pp rc @ '' does not allow any role assignment.''\<rparr>
          else checkRoles pp rc (Roles subject), zero_httpError)"
  using assms find_roles_Name [OF assms]
  by (simp add: Verify_def findRoleClaim_find)

text \<open>
  C7 (amended). For a claims list and a credential subject, \<open>Verify\<close> always returns a
  decision, and the decision is: allowed, with the reason
  \<open>No restrictions for roles exist.\<close>, when no claim is named \<open>roles\<close>; otherwise, for the
  first claim named \<open>roles\<close>: not allowed, with the reason
  \<open>Claim <claim> does not allow any role assignment.\<close>, when its allow-list is empty,
  whatever the roles of the subject; allowed, with the reason \<open>Role claims allowed.\<close>,
  when the allow-list is not empty and holds every role of the subject; and not allowed,
  with the reason \<open>Role <role> is not coverd by the roles-claim capability <claim>.\<close>
  for the first role of the subject that the non-empty allow-list does not hold.
\<close>

theorem Verify_decision:
  "(\<exists>d. Verify pp (Some cs) (Some subject) = Inr (d, zero_httpError))
   \<and> (find (\<lambda>c. Name c = ''roles'') cs = None \<longrightarrow>
      Verify pp (Some cs) (Some subject) =
        Inr (\<lparr>allowed = True, reason = ''No restrictions for roles exist.''\<rparr>, zero_httpError))
   \<and> (\<forall>rc. find (\<lambda>c. Name c = ''roles'') cs = Some rc \<longrightarrow>
        (AllowedValues rc = [] \<longrightarrow>
           Verify pp (Some cs) (Some subject) =
             Inr (\<lparr>allowed = False,
                   reason = ''Claim '' @ pp rc @ '' does not allow any role assignment.''\<rparr>,
                  zero_httpError))
        \<and> (AllowedValues rc \<noteq> [] \<and> set (Roles subject) \<subseteq> set (AllowedValues rc) \<longrightarrow>
             Verify pp (Some cs) (Some subject) =
               Inr (\<lparr>allowed = True, reason = ''Role claims allowed.''\<rparr>, zero_httpError))
        \<and> (\<forall>role. AllowedValues rc \<noteq> []
                \<and> find (\<lambda>r. r \<notin> set (AllowedValues rc)) (Roles subject) = Some role \<longrightarrow>
             Verify pp (Some cs) (Some subject) =
               Inr (\<lparr>allowed = False,
                     reason = ''Role '' @ role @ '' is not coverd by the roles-claim capability ''
                                @ pp rc @ ''.''\<rparr>,
                    zero_httpError)))"
proof (cases "find (\<lambda>c. Name c = ''roles'') cs")
  case None
  then show ?thesis by (simp add: Verify_no_roles_claim)
next
  case (Some rc)
  then show ?thesis
    by (simp add: Verify_roles_claim checkRoles_covered checkRoles_uncovered)
qed

theorem Verify_decision_witness:
  "Verify (\<lambda>c. Name c) (Some [\<lparr>Name = ''roles'', AllowedValues = [''admin'', ''buyer'']\<rparr>])
     (Some \<lparr>Roles = [''buyer'', ''auditor'']\<rparr>) =
     Inr (\<lparr>allowed = False,
           reason = ''Role auditor is not coverd by the roles-claim capability roles.''\<rparr>,
          zero_httpError)"
  using Verify_decision [of "\<lambda>c. Name c"
      "[\<lparr>Name = ''roles'', AllowedValues = [''admin'', ''buyer'']\<rparr>]"
      "\<lparr>Roles = [''buyer'', ''auditor'']\<rparr>"]
  by simp

text \<open>
  The claim as it is written gives the first reason as \<open>no restrictions for roles exist\<close>;
  the code returns another string.
\<close>

theorem Verify_reason_counterexample:
  "\<not> (\<forall>pp cs subject. find (\<lambda>c. Name c = ''roles'') cs = None \<longrightarrow>
        (\<exists>e. Verify pp (Some cs) (Some subject) =
               Inr (\<lparr>allowed = True, reason = ''no restrictions for roles exist''\<rparr>, e)))"
proof
  assume "\<forall>pp cs subject. find (\<lambda>c. Name c = ''roles'') cs = None \<longrightarrow>
        (\<exists>e. Verify pp (Some cs) (Some subject) =
               Inr (\<lparr>allowed = True, reason = ''no restrictions for roles exist''\<rparr>, e))"
  then have "\<exists>e. Verify (\<lambda>c. Name c) (Some []) (Some \<lparr>Roles = []\<rparr>) =
               Inr (\<lparr>allowed = True, reason = ''no restrictions for roles exist''\<rparr>, e)"
    by simp
  then show False
    by (simp add: Verify_def zeroClaim_def)
qed

text \<open>
  C9. For every claims list and credential subject \<open>Verify\<close> returns a decision together
  with the zero error, and a decision that does not allow carries a non-empty reason.
  Whenever \<open>Verify\<close> returns at all, for nil arguments too, the error is the zero value.
\<close>

theorem Verify_error_zero:
  "(\<exists>d. Verify pp (Some cs) (Some subject) = Inr (d, zero_httpError)
        \<and> (\<not> allowed d \<longrightarrow> reason d \<noteq> []))
   \<and> (\<forall>claims credentialSubject d err.
         Verify pp claims credentialSubject = Inr (d, err) \<longrightarrow> err = zero_httpError)"
proof
  show "\<exists>d. Verify pp (Some cs) (Some subject) = Inr (d, zero_httpError)
        \<and> (\<not> allowed d \<longrightarrow> reason d \<noteq> [])"
  proof (cases "find (\<lambda>c. Name c = ''roles'') cs")
    case None
    then show ?thesis by (simp add: Verify_no_roles_claim)
  next
    case (Some rc)
    then show ?thesis by (simp add: Verify_roles_claim checkRoles_reason)
  qed
  show "\<forall>claims credentialSubject d err.
         Verify pp claims credentialSubject = Inr (d, err) \<longrightarrow> err = zero_httpError"
    by (auto simp add: Verify_def Let_def split: option.splits if_splits)
qed

theorem Verify_error_zero_witness:
  "Verify (\<lambda>c. Name c) (Some [\<lparr>Name = ''roles'', AllowedValues = []\<rparr>]) (Some \<lparr>Roles = []\<rparr>) =
     Inr (\<lparr>allowed = False, reason = ''Claim roles does not allow any role assignment.''\<rparr>,
          zero_httpError)"
  using Verify_error_zero [of "\<lambda>c. Name c" "[\<lparr>Name = ''roles'', AllowedValues = []\<rparr>]"
      "\<lparr>Roles = []\<rparr>"]
  by (simp add: Verify_def)

end
